theory Spec2Isabelle
  imports Main
begin

section \<open>The manifest \<^verbatim>\<open>setup.py\<close>\<close>

text \<open>
  The repository holds one file, \<^verbatim>\<open>setup.py\<close>, of two lines: an import from
  setuptools and one call of \<^verbatim>\<open>setup\<close>. The file is kept here character by
  character; everything below is computed from this text.
\<close>

definition setup_py_line1 :: string where
  "setup_py_line1 = ''from setuptools import setup, find_packages''"

definition setup_py_line2 :: string where
  "setup_py_line2 = ''setup(name='ai-video-editor-agent', version='0.1.0', author='Hernane Bini', description='AI-Powered Video Editor Agent', packages=find_packages(), python_requires='>=3.9', install_requires=['opencv-python>=4.8.0', 'torch>=2.1.0', 'fastapi>=0.104.0', 'pytest>=7.4.0'])''"

text \<open>The file has no newline after its last line.\<close>

definition setup_py :: string where
  "setup_py = setup_py_line1 @ [CHR 0x0A] @ setup_py_line2"

subsection \<open>Lines of a text\<close>

text \<open>
  \<^verbatim>\<open>str.splitlines\<close>, for the line break \<^verbatim>\<open>\n\<close>: a text is cut after each
  newline, and a text that ends in a newline has no empty last line.
\<close>

fun splitlines_acc :: "string \<Rightarrow> string \<Rightarrow> string list" where
  "splitlines_acc acc [] = (if acc = [] then [] else [rev acc])"
| "splitlines_acc acc (c # cs) =
     (if c = CHR 0x0A then rev acc # splitlines_acc [] cs
      else splitlines_acc (c # acc) cs)"

definition splitlines :: "string \<Rightarrow> string list" where
  "splitlines s = splitlines_acc [] s"

section \<open>The fragment of Python the manifest is written in\<close>

subsection \<open>Tokens\<close>

text \<open>
  The token kinds are those of Python's \<^verbatim>\<open>token\<close> module that the fragment needs.
  Keywords are \<^verbatim>\<open>NAME\<close> tokens, as in Python's tokenizer.
\<close>

datatype token =
    NAME string
  | STRING string
  | LPAR | RPAR | LSQB | RSQB | COMMA | EQUAL
  | NEWLINE

datatype lex_mode = Between | InName string | InString string

definition is_letter :: "char \<Rightarrow> bool" where
  "is_letter c = (c \<in> set ''abcdefghijklmnopqrstuvwxyzABCDEFGHIJKLMNOPQRSTUVWXYZ_'')"

definition is_digit :: "char \<Rightarrow> bool" where
  "is_digit c = (c \<in> set ''0123456789'')"

definition punctuation :: "char \<Rightarrow> token option" where
  "punctuation c =
     (if c = CHR ''('' then Some LPAR
      else if c = CHR '')'' then Some RPAR
      else if c = CHR ''['' then Some LSQB
      else if c = CHR '']'' then Some RSQB
      else if c = CHR '','' then Some COMMA
      else if c = CHR ''='' then Some EQUAL
      else if c = CHR 0x0A then Some NEWLINE
      else None)"

text \<open>
  The tokenizer reads one character at a time. A string literal is delimited by single
  quotes and holds no backslash; a character outside the fragment (a digit that starts a
  token, a colon, an operator) gives \<open>None\<close>, as does an unterminated string.
\<close>

fun lex :: "lex_mode \<Rightarrow> string \<Rightarrow> token list option" where
  "lex Between [] = Some []"
| "lex (InName n) [] = Some [NAME (rev n)]"
| "lex (InString s) [] = None"
| "lex Between (c # cs) =
     (if is_letter c then lex (InName [c]) cs
      else if c = CHR 0x27 then lex (InString []) cs
      else if c = CHR '' '' then lex Between cs
      else (case punctuation c of
              None \<Rightarrow> None
            | Some t \<Rightarrow> map_option ((#) t) (lex Between cs)))"
| "lex (InName n) (c # cs) =
     (if is_letter c \<or> is_digit c then lex (InName (c # n)) cs
      else if c = CHR 0x27 then None
      else if c = CHR '' '' then map_option ((#) (NAME (rev n))) (lex Between cs)
      else (case punctuation c of
              None \<Rightarrow> None
            | Some t \<Rightarrow> map_option (\<lambda>ts. NAME (rev n) # t # ts) (lex Between cs)))"
| "lex (InString s) (c # cs) =
     (if c = CHR 0x27 then map_option ((#) (STRING (rev s))) (lex Between cs)
      else if c = CHR 0x5C \<or> c = CHR 0x0A then None
      else lex (InString (c # s)) cs)"

definition tokenize :: "string \<Rightarrow> token list option" where
  "tokenize s = lex Between s"

subsection \<open>Syntax trees\<close>

datatype expr =
    Str string
  | ListE "expr list"
  | Call string "expr list" "(string \<times> expr) list"

datatype stmt =
    ImportFrom string "string list"
  | ExprStmt expr

subsection \<open>Parsing\<close>

text \<open>
  Recursive descent over the tokens of one logical line. The first argument bounds the
  depth of the recursion; \<open>parse_stmt\<close> starts it at the number of tokens, which no
  nesting can exceed. \<open>None\<close> is a syntax error, or syntax outside the fragment.

  An expression is a string literal, a list display (a trailing comma is allowed) or a
  call of a name. In a call a positional argument after a keyword argument and a
  repeated keyword are syntax errors, as in Python.
\<close>

fun parse_expr :: "nat \<Rightarrow> token list \<Rightarrow> (expr \<times> token list) option"
  and parse_items :: "nat \<Rightarrow> token list \<Rightarrow> (expr list \<times> token list) option"
  and parse_args ::
    "nat \<Rightarrow> token list \<Rightarrow> ((expr list \<times> (string \<times> expr) list) \<times> token list) option"
where
  "parse_expr 0 ts = None"
| "parse_expr (Suc k) ts =
     (case ts of
        STRING s # r \<Rightarrow> Some (Str s, r)
      | LSQB # r \<Rightarrow>
          (case parse_items k r of
             None \<Rightarrow> None
           | Some (es, r') \<Rightarrow> Some (ListE es, r'))
      | NAME f # LPAR # r \<Rightarrow>
          (case parse_args k r of
             None \<Rightarrow> None
           | Some ((as, kws), r') \<Rightarrow> Some (Call f as kws, r'))
      | _ \<Rightarrow> None)"
| "parse_items 0 ts = None"
| "parse_items (Suc k) ts =
     (case ts of
        RSQB # r \<Rightarrow> Some ([], r)
      | _ \<Rightarrow>
          (case parse_expr k ts of
             None \<Rightarrow> None
           | Some (e, RSQB # r) \<Rightarrow> Some ([e], r)
           | Some (e, COMMA # r) \<Rightarrow>
               (case parse_items k r of
                  None \<Rightarrow> None
                | Some (es, r') \<Rightarrow> Some (e # es, r'))
           | Some (e, _) \<Rightarrow> None))"
| "parse_args 0 ts = None"
| "parse_args (Suc k) ts =
     (case ts of
        RPAR # r \<Rightarrow> Some (([], []), r)
      | NAME kw # EQUAL # r \<Rightarrow>
          (case parse_expr k r of
             None \<Rightarrow> None
           | Some (e, RPAR # r') \<Rightarrow> Some (([], [(kw, e)]), r')
           | Some (e, COMMA # r') \<Rightarrow>
               (case parse_args k r' of
                  None \<Rightarrow> None
                | Some ((as, kws), r'') \<Rightarrow>
                    if as \<noteq> [] \<or> kw \<in> fst ` set kws then None
                    else Some (([], (kw, e) # kws), r''))
           | Some (e, _) \<Rightarrow> None)
      | _ \<Rightarrow>
          (case parse_expr k ts of
             None \<Rightarrow> None
           | Some (e, RPAR # r') \<Rightarrow> Some (([e], []), r')
           | Some (e, COMMA # r') \<Rightarrow>
               (case parse_args k r' of
                  None \<Rightarrow> None
                | Some ((as, kws), r'') \<Rightarrow> Some ((e # as, kws), r''))
           | Some (e, _) \<Rightarrow> None))"

text \<open>The names of \<^verbatim>\<open>from m import a, b, ...\<close>: at least one, separated by commas.\<close>

fun parse_import_names :: "token list \<Rightarrow> string list option" where
  "parse_import_names [NAME a] = Some [a]"
| "parse_import_names (NAME a # COMMA # r) = map_option ((#) a) (parse_import_names r)"
| "parse_import_names _ = None"

definition reserved_words :: "string list" where
  "reserved_words = [''from'', ''import'', ''def'', ''class'', ''lambda'', ''if'', ''else'',
     ''for'', ''while'', ''return'', ''with'', ''try'', ''del'', ''global'', ''assert'']"

definition parse_stmt :: "token list \<Rightarrow> stmt option" where
  "parse_stmt ts =
     (case ts of
        NAME w # r \<Rightarrow>
          if w = ''from'' then
            (case r of
               NAME m # NAME i # ns \<Rightarrow>
                 if i = ''import'' then map_option (ImportFrom m) (parse_import_names ns)
                 else None
             | _ \<Rightarrow> None)
          else if w \<in> set reserved_words then None
          else
            (case parse_expr (length ts) ts of
               Some (e, []) \<Rightarrow> Some (ExprStmt e)
             | _ \<Rightarrow> None)
      | _ \<Rightarrow>
          (case parse_expr (length ts) ts of
             Some (e, []) \<Rightarrow> Some (ExprStmt e)
           | _ \<Rightarrow> None))"

text \<open>The logical lines of a token list: cut at each \<open>NEWLINE\<close>, blank lines dropped.\<close>

fun logical_lines :: "token list \<Rightarrow> token list \<Rightarrow> token list list" where
  "logical_lines acc [] = (if acc = [] then [] else [rev acc])"
| "logical_lines acc (t # ts) =
     (if t = NEWLINE
      then (if acc = [] then logical_lines [] ts else rev acc # logical_lines [] ts)
      else logical_lines (t # acc) ts)"

fun parse_stmts :: "token list list \<Rightarrow> stmt list option" where
  "parse_stmts [] = Some []"
| "parse_stmts (l # ls) =
     (case parse_stmt l of
        None \<Rightarrow> None
      | Some s \<Rightarrow> map_option ((#) s) (parse_stmts ls))"

definition parse_module :: "string \<Rightarrow> stmt list option" where
  "parse_module src =
     (case tokenize src of
        None \<Rightarrow> None
      | Some ts \<Rightarrow> parse_stmts (logical_lines [] ts))"

section \<open>What the manifest imports from setuptools\<close>

subsection \<open>The file tree and \<^verbatim>\<open>find_packages\<close>\<close>

text \<open>
  A directory is the list of its entries, in the order the operating system lists them.
\<close>

datatype fs_node = File | Dir "(string \<times> fs_node) list"

text \<open>
  \<^verbatim>\<open>find_packages()\<close> is setuptools' function, not code of this repository. With its
  default arguments (\<^verbatim>\<open>where='.'\<close>, no exclusion asked for, everything included) it
  walks the directory of \<^verbatim>\<open>setup.py\<close> top-down: a subdirectory is a package when its
  name has no dot and it holds a file \<^verbatim>\<open>__init__.py\<close>; the walk reports the packages
  of a directory and then descends into those packages only. A package is named by its
  path from the top, joined with dots.

  Two patterns are always excluded, \<^verbatim>\<open>ez_setup\<close> and \<^verbatim>\<open>*__pycache__\<close>, matched
  against the dotted name: a package of that name is not reported, but the walk still
  descends into it.
\<close>

definition looks_like_package :: "fs_node \<Rightarrow> bool" where
  "looks_like_package n =
     (case n of File \<Rightarrow> False | Dir entries \<Rightarrow> (''__init__.py'', File) \<in> set entries)"

definition package_dirs :: "(string \<times> fs_node) list \<Rightarrow> (string \<times> fs_node) list" where
  "package_dirs entries =
     filter (\<lambda>p. CHR ''.'' \<notin> set (fst p) \<and> looks_like_package (snd p)) entries"

definition ends_with :: "string \<Rightarrow> string \<Rightarrow> bool" where
  "ends_with suf s = (length suf \<le> length s \<and> drop (length s - length suf) s = suf)"

definition always_excluded :: "string \<Rightarrow> bool" where
  "always_excluded package = (package = ''ez_setup'' \<or> ends_with ''__pycache__'' package)"

function find_packages_iter :: "string \<Rightarrow> fs_node \<Rightarrow> string list" where
  "find_packages_iter prefix File = []"
| "find_packages_iter prefix (Dir entries) =
     filter (\<lambda>package. \<not> always_excluded package)
            (map (\<lambda>p. prefix @ fst p) (package_dirs entries)) @
     concat (map (\<lambda>p. find_packages_iter (prefix @ fst p @ ''.'') (snd p))
                 (package_dirs entries))"
  by pat_completeness auto

lemma size_entry_less:
  "(a, b) \<in> set entries \<Longrightarrow> size b < Suc (size_list (size_prod (\<lambda>x. 0) size) entries)"
  by (induction entries) auto

termination find_packages_iter
  by (relation "measure (\<lambda>(prefix, n). size n)") (auto simp: package_dirs_def size_entry_less)

definition find_packages :: "fs_node \<Rightarrow> string list" where
  "find_packages tree = find_packages_iter [] tree"

subsection \<open>Values, errors and the module's state\<close>

datatype pyval = VStr string | VList "pyval list" | VNone

datatype py_error =
    SyntaxError
  | NameError string
  | TypeError
  | Unsupported

text \<open>
  The two objects the manifest imports, and three functions of the standard library
  through which a module of this fragment can read what differs from one run to the
  next: \<^verbatim>\<open>os.getenv\<close>, \<^verbatim>\<open>os.getcwd\<close> and \<^verbatim>\<open>time.ctime\<close>.
\<close>

datatype builtin = SetupFn | FindPackagesFn | GetenvFn | GetcwdFn | CtimeFn

text \<open>
  What a run can observe besides the files of the checkout: the environment variables,
  the path of the working directory and the time of day (as \<^verbatim>\<open>time.ctime()\<close> prints
  it).
\<close>

record run_env =
  environ :: "(string \<times> string) list"
  cwd :: string
  clock :: string

type_synonym attrs = "(string \<times> pyval) list"

text \<open>
  Running the module binds names and calls \<^verbatim>\<open>setup\<close>. The state holds the
  module's global names and, for every call of \<^verbatim>\<open>setup\<close> so far, the keyword
  arguments it received (\<^verbatim>\<open>setup(**attrs)\<close>), in call order.
\<close>

record module_state =
  globals :: "(string \<times> builtin) list"
  setup_calls :: "attrs list"

definition initial_state :: module_state where
  "initial_state = \<lparr>globals = [], setup_calls = []\<rparr>"

fun sequence :: "(py_error + 'a) list \<Rightarrow> py_error + 'a list" where
  "sequence [] = Inr []"
| "sequence (Inl e # rs) = Inl e"
| "sequence (Inr v # rs) = (case sequence rs of Inl e \<Rightarrow> Inl e | Inr vs \<Rightarrow> Inr (v # vs))"

text \<open>
  \<^verbatim>\<open>os.getenv(key)\<close> gives the value of the variable, or \<^verbatim>\<open>None\<close> when it is not
  set; \<^verbatim>\<open>os.getenv(key, default)\<close> gives the default then. The key must be a string.
\<close>

fun getenv :: "run_env \<Rightarrow> pyval list \<Rightarrow> py_error + pyval" where
  "getenv env [VStr key] =
     (case map_of (environ env) key of None \<Rightarrow> Inr VNone | Some v \<Rightarrow> Inr (VStr v))"
| "getenv env [VStr key, dflt] =
     (case map_of (environ env) key of None \<Rightarrow> Inr dflt | Some v \<Rightarrow> Inr (VStr v))"
| "getenv env vs = Inl TypeError"

text \<open>
  An unbound name raises \<^verbatim>\<open>NameError\<close>. \<^verbatim>\<open>find_packages\<close> is modelled for the
  call without arguments, the three library functions for positional arguments; a call
  of \<^verbatim>\<open>setup\<close> inside an expression is outside the fragment.
\<close>

fun eval_expr ::
  "run_env \<Rightarrow> (string \<times> builtin) list \<Rightarrow> fs_node \<Rightarrow> expr \<Rightarrow> py_error + pyval" where
  "eval_expr env g tree (Str s) = Inr (VStr s)"
| "eval_expr env g tree (ListE es) =
     (case sequence (map (eval_expr env g tree) es) of
        Inl e \<Rightarrow> Inl e
      | Inr vs \<Rightarrow> Inr (VList vs))"
| "eval_expr env g tree (Call f as kws) =
     (case map_of g f of
        None \<Rightarrow> Inl (NameError f)
      | Some FindPackagesFn \<Rightarrow>
          if as = [] \<and> kws = [] then Inr (VList (map VStr (find_packages tree)))
          else Inl Unsupported
      | Some SetupFn \<Rightarrow> Inl Unsupported
      | Some GetenvFn \<Rightarrow>
          if kws \<noteq> [] then Inl Unsupported
          else (case sequence (map (eval_expr env g tree) as) of
                  Inl e \<Rightarrow> Inl e
                | Inr vs \<Rightarrow> getenv env vs)
      | Some GetcwdFn \<Rightarrow>
          if as = [] \<and> kws = [] then Inr (VStr (cwd env)) else Inl TypeError
      | Some CtimeFn \<Rightarrow>
          if as = [] \<and> kws = [] then Inr (VStr (clock env)) else Inl Unsupported)"

definition eval_kwargs ::
  "run_env \<Rightarrow> (string \<times> builtin) list \<Rightarrow> fs_node \<Rightarrow> (string \<times> expr) list \<Rightarrow>
     py_error + attrs" where
  "eval_kwargs env g tree kws =
     (case sequence (map (\<lambda>kw. eval_expr env g tree (snd kw)) kws) of
        Inl e \<Rightarrow> Inl e
      | Inr vs \<Rightarrow> Inr (zip (map fst kws) vs))"

text \<open>\<open>import_name m n\<close> is the object that \<^verbatim>\<open>from m import n\<close> binds to \<open>n\<close>.\<close>

definition import_name :: "string \<Rightarrow> string \<Rightarrow> py_error + (string \<times> builtin)" where
  "import_name m n =
     (if m = ''setuptools'' \<and> n = ''setup'' then Inr (n, SetupFn)
      else if m = ''setuptools'' \<and> n = ''find_packages'' then Inr (n, FindPackagesFn)
      else if m = ''os'' \<and> n = ''getenv'' then Inr (n, GetenvFn)
      else if m = ''os'' \<and> n = ''getcwd'' then Inr (n, GetcwdFn)
      else if m = ''time'' \<and> n = ''ctime'' then Inr (n, CtimeFn)
      else Inl Unsupported)"

text \<open>
  \<^verbatim>\<open>setup\<close> takes keyword arguments only. A later binding of a name shadows an
  earlier one, so new bindings go to the front of \<open>globals\<close>.
\<close>

fun exec_stmt ::
  "run_env \<Rightarrow> fs_node \<Rightarrow> module_state \<Rightarrow> stmt \<Rightarrow> py_error + module_state" where
  "exec_stmt env tree st (ImportFrom m ns) =
     (case sequence (map (import_name m) ns) of
        Inl e \<Rightarrow> Inl e
      | Inr bs \<Rightarrow> Inr (st\<lparr>globals := rev bs @ globals st\<rparr>))"
| "exec_stmt env tree st (ExprStmt (Call f as kws)) =
     (case map_of (globals st) f of
        None \<Rightarrow> Inl (NameError f)
      | Some SetupFn \<Rightarrow>
          if as \<noteq> [] then Inl TypeError
          else (case eval_kwargs env (globals st) tree kws of
                  Inl e \<Rightarrow> Inl e
                | Inr a \<Rightarrow> Inr (st\<lparr>setup_calls := setup_calls st @ [a]\<rparr>))
      | Some b \<Rightarrow>
          (case eval_expr env (globals st) tree (Call f as kws) of
             Inl e \<Rightarrow> Inl e
           | Inr v \<Rightarrow> Inr st))"
| "exec_stmt env tree st (ExprStmt e) =
     (case eval_expr env (globals st) tree e of Inl e \<Rightarrow> Inl e | Inr v \<Rightarrow> Inr st)"

fun exec_module ::
  "run_env \<Rightarrow> fs_node \<Rightarrow> module_state \<Rightarrow> stmt list \<Rightarrow> py_error + module_state" where
  "exec_module env tree st [] = Inr st"
| "exec_module env tree st (s # ss) =
     (case exec_stmt env tree st s of
        Inl e \<Rightarrow> Inl e
      | Inr st' \<Rightarrow> exec_module env tree st' ss)"

definition run_source :: "run_env \<Rightarrow> fs_node \<Rightarrow> string \<Rightarrow> py_error + attrs list" where
  "run_source env tree src =
     (case parse_module src of
        None \<Rightarrow> Inl SyntaxError
      | Some m \<Rightarrow>
          (case exec_module env tree initial_state m of
             Inl e \<Rightarrow> Inl e
           | Inr st \<Rightarrow> Inr (setup_calls st)))"

section \<open>Requirement strings\<close>

text \<open>
  The entries of \<^verbatim>\<open>install_requires\<close> and the value of \<^verbatim>\<open>python_requires\<close> are
  strings in the packaging notation: a distribution name followed by version clauses
  separated by commas, each clause a comparison operator and a version. This section
  reads the part of the notation with the six ordering operators and versions that are
  dotted numbers; anything else (\<^verbatim>\<open>~=\<close>, \<^verbatim>\<open>===\<close>, wildcards, extras, markers,
  URLs, pre-release tags) reads as \<open>None\<close>.
\<close>

datatype cmp_op = GE | LE | EQ | NE | GT | LT

type_synonym version = "nat list"

type_synonym clause = "cmp_op \<times> version"

fun split_on_acc :: "char \<Rightarrow> string \<Rightarrow> string \<Rightarrow> string list" where
  "split_on_acc sep acc [] = [rev acc]"
| "split_on_acc sep acc (c # cs) =
     (if c = sep then rev acc # split_on_acc sep [] cs
      else split_on_acc sep (c # acc) cs)"

definition split_on :: "char \<Rightarrow> string \<Rightarrow> string list" where
  "split_on sep s = split_on_acc sep [] s"

definition digit_value :: "char \<Rightarrow> nat option" where
  "digit_value c =
     (if c = CHR ''0'' then Some 0 else if c = CHR ''1'' then Some 1
      else if c = CHR ''2'' then Some 2 else if c = CHR ''3'' then Some 3
      else if c = CHR ''4'' then Some 4 else if c = CHR ''5'' then Some 5
      else if c = CHR ''6'' then Some 6 else if c = CHR ''7'' then Some 7
      else if c = CHR ''8'' then Some 8 else if c = CHR ''9'' then Some 9
      else None)"

fun parse_nat_acc :: "nat \<Rightarrow> string \<Rightarrow> nat option" where
  "parse_nat_acc n [] = Some n"
| "parse_nat_acc n (c # cs) =
     (case digit_value c of
        None \<Rightarrow> None
      | Some d \<Rightarrow> parse_nat_acc (10 * n + d) cs)"

definition parse_nat :: "string \<Rightarrow> nat option" where
  "parse_nat s = (if s = [] then None else parse_nat_acc 0 s)"

fun those_list :: "'a option list \<Rightarrow> 'a list option" where
  "those_list [] = Some []"
| "those_list (None # xs) = None"
| "those_list (Some x # xs) = map_option ((#) x) (those_list xs)"

definition parse_version :: "string \<Rightarrow> version option" where
  "parse_version s = those_list (map parse_nat (split_on CHR ''.'' s))"

definition strip :: "string \<Rightarrow> string" where
  "strip s = rev (dropWhile (\<lambda>c. c = CHR '' '') (rev (dropWhile (\<lambda>c. c = CHR '' '') s)))"

text \<open>The operator is read longest first: \<^verbatim>\<open>>=\<close> before \<^verbatim>\<open>>\<close>.\<close>

fun parse_op :: "string \<Rightarrow> (cmp_op \<times> string) option" where
  "parse_op (a # b # r) =
     (if a = CHR ''>'' \<and> b = CHR ''='' then Some (GE, r)
      else if a = CHR ''<'' \<and> b = CHR ''='' then Some (LE, r)
      else if a = CHR ''='' \<and> b = CHR ''='' then Some (EQ, r)
      else if a = CHR ''!'' \<and> b = CHR ''='' then Some (NE, r)
      else if a = CHR ''>'' then Some (GT, b # r)
      else if a = CHR ''<'' then Some (LT, b # r)
      else None)"
| "parse_op _ = None"

definition parse_clause :: "string \<Rightarrow> clause option" where
  "parse_clause s =
     (case parse_op (strip s) of
        None \<Rightarrow> None
      | Some (op, r) \<Rightarrow> map_option (Pair op) (parse_version (strip r)))"

definition parse_specifier_set :: "string \<Rightarrow> clause list option" where
  "parse_specifier_set s =
     (if strip s = [] then Some []
      else those_list (map parse_clause (split_on CHR '','' s)))"

definition is_name_char :: "char \<Rightarrow> bool" where
  "is_name_char c = (is_letter c \<or> is_digit c \<or> c = CHR ''-'' \<or> c = CHR ''.'')"

definition parse_requirement :: "string \<Rightarrow> (string \<times> clause list) option" where
  "parse_requirement s =
     (let n = takeWhile is_name_char (strip s);
          r = dropWhile is_name_char (strip s)
      in if n = [] then None
         else map_option (Pair n) (parse_specifier_set r))"

subsection \<open>The order of versions\<close>

text \<open>
  Release numbers compare segment by segment from the left, the shorter one padded with
  zeros: \<^verbatim>\<open>3.9\<close> equals \<^verbatim>\<open>3.9.0\<close> and is below \<^verbatim>\<open>3.10\<close>.
\<close>

fun release_less :: "version \<Rightarrow> version \<Rightarrow> bool" where
  "release_less [] [] = False"
| "release_less [] (y # ys) = (0 < y \<or> release_less [] ys)"
| "release_less (x # xs) [] = False"
| "release_less (x # xs) (y # ys) = (x < y \<or> (x = y \<and> release_less xs ys))"

definition release_le :: "version \<Rightarrow> version \<Rightarrow> bool" where
  "release_le v w = (\<not> release_less w v)"

fun satisfies :: "clause \<Rightarrow> version \<Rightarrow> bool" where
  "satisfies (GE, v) w = release_le v w"
| "satisfies (LE, v) w = release_le w v"
| "satisfies (EQ, v) w = (release_le v w \<and> release_le w v)"
| "satisfies (NE, v) w = (release_less v w \<or> release_less w v)"
| "satisfies (GT, v) w = release_less v w"
| "satisfies (LT, v) w = release_less w v"

section \<open>Running the manifest\<close>

text \<open>
  \<open>manifest env tree\<close> runs \<^verbatim>\<open>setup.py\<close> under the environment \<open>env\<close> in a
  checkout whose files are \<open>tree\<close>; \<open>setup_arg env tree k\<close> is the value the one call
  of \<^verbatim>\<open>setup\<close> receives for the keyword \<open>k\<close>: \<open>None\<close> when the keyword is not
  passed, or when the run fails or does not call \<^verbatim>\<open>setup\<close> exactly once.
\<close>

definition manifest :: "run_env \<Rightarrow> fs_node \<Rightarrow> py_error + attrs list" where
  "manifest env tree = run_source env tree setup_py"

definition setup_arg :: "run_env \<Rightarrow> fs_node \<Rightarrow> string \<Rightarrow> pyval option" where
  "setup_arg env tree k =
     (case manifest env tree of
        Inr [a] \<Rightarrow> map_of a k
      | _ \<Rightarrow> None)"

definition setup_keywords :: "run_env \<Rightarrow> fs_node \<Rightarrow> string list option" where
  "setup_keywords env tree =
     (case manifest env tree of
        Inr [a] \<Rightarrow> Some (map fst a)
      | _ \<Rightarrow> None)"

fun str_list :: "pyval list \<Rightarrow> string list option" where
  "str_list [] = Some []"
| "str_list (VStr s # vs) = map_option ((#) s) (str_list vs)"
| "str_list (v # vs) = None"

definition install_requires :: "run_env \<Rightarrow> fs_node \<Rightarrow> string list option" where
  "install_requires env tree =
     (case setup_arg env tree ''install_requires'' of
        Some (VList vs) \<Rightarrow> str_list vs
      | _ \<Rightarrow> None)"

text \<open>
  Whether a runtime version meets \<^verbatim>\<open>python_requires\<close>: every clause of the
  specifier must hold. \<open>None\<close> when the argument is absent or cannot be read.
\<close>

definition python_requires_allows :: "run_env \<Rightarrow> fs_node \<Rightarrow> version \<Rightarrow> bool option" where
  "python_requires_allows env tree v =
     (case setup_arg env tree ''python_requires'' of
        Some (VStr s) \<Rightarrow>
          map_option (list_all (\<lambda>c. satisfies c v)) (parse_specifier_set s)
      | _ \<Rightarrow> None)"

text \<open>The repository as it is: the manifest alone.\<close>

definition repo_tree :: fs_node where
  "repo_tree = Dir [(''setup.py'', File)]"

text \<open>
  Two environments that differ in every component, and a manifest that this repository
  does not have: one that takes the package name from an environment variable. They
  serve to compare runs.
\<close>

definition bare_env :: run_env where
  "bare_env = \<lparr>environ = [], cwd = ''/'', clock = ''Thu Jan  1 00:00:00 1970''\<rparr>"

definition build_env :: run_env where
  "build_env =
     \<lparr>environ = [(''PKG_NAME'', ''other-name''), (''HOME'', ''/home/build'')],
      cwd = ''/home/build/ai-video-editor-agent'',
      clock = ''Tue Nov  3 20:00:00 2026''\<rparr>"

definition env_reading_setup_py :: string where
  "env_reading_setup_py =
     ''from setuptools import setup'' @ [CHR 0x0A] @
     ''from os import getenv'' @ [CHR 0x0A] @
     ''setup(name=getenv('PKG_NAME'), version='0.1.0')''"

text \<open>The syntax tree of \<^verbatim>\<open>setup.py\<close>, written out.\<close>

definition setup_py_ast :: "stmt list" where
  "setup_py_ast =
     [ImportFrom ''setuptools'' [''setup'', ''find_packages''],
      ExprStmt
        (Call ''setup'' []
           [(''name'', Str ''ai-video-editor-agent''),
            (''version'', Str ''0.1.0''),
            (''author'', Str ''Hernane Bini''),
            (''description'', Str ''AI-Powered Video Editor Agent''),
            (''packages'', Call ''find_packages'' [] []),
            (''python_requires'', Str ''>=3.9''),
            (''install_requires'',
             ListE [Str ''opencv-python>=4.8.0'', Str ''torch>=2.1.0'',
                    Str ''fastapi>=0.104.0'', Str ''pytest>=7.4.0''])])]"

text \<open>The names that occur in the source, keywords included, in order.\<close>

fun names_of :: "token list \<Rightarrow> string list" where
  "names_of [] = []"
| "names_of (NAME n # ts) = n # names_of ts"
| "names_of (t # ts) = names_of ts"

definition source_names :: "string \<Rightarrow> string list option" where
  "source_names src = map_option names_of (tokenize src)"

text \<open>
  A checkout has no package directory when no entry beside \<^verbatim>\<open>setup.py\<close> is a
  directory that holds an \<^verbatim>\<open>__init__.py\<close>.
\<close>

definition no_package_dirs :: "fs_node \<Rightarrow> bool" where
  "no_package_dirs tree =
     (case tree of
        File \<Rightarrow> True
      | Dir entries \<Rightarrow> list_all (\<lambda>p. \<not> looks_like_package (snd p)) entries)"

section \<open>Facts about the manifest\<close>

subsection \<open>From the text to the call of \<^verbatim>\<open>setup\<close>\<close>

lemma tokenize_setup_py:
  "tokenize setup_py =
     Some [NAME ''from'', NAME ''setuptools'', NAME ''import'', NAME ''setup'', COMMA,
           NAME ''find_packages'', NEWLINE,
           NAME ''setup'', LPAR,
           NAME ''name'', EQUAL, STRING ''ai-video-editor-agent'', COMMA,
           NAME ''version'', EQUAL, STRING ''0.1.0'', COMMA,
           NAME ''author'', EQUAL, STRING ''Hernane Bini'', COMMA,
           NAME ''description'', EQUAL, STRING ''AI-Powered Video Editor Agent'', COMMA,
           NAME ''packages'', EQUAL, NAME ''find_packages'', LPAR, RPAR, COMMA,
           NAME ''python_requires'', EQUAL, STRING ''>=3.9'', COMMA,
           NAME ''install_requires'', EQUAL, LSQB,
           STRING ''opencv-python>=4.8.0'', COMMA, STRING ''torch>=2.1.0'', COMMA,
           STRING ''fastapi>=0.104.0'', COMMA, STRING ''pytest>=7.4.0'', RSQB, RPAR]"
  by code_simp

lemma parse_setup_py: "parse_module setup_py = Some setup_py_ast"
  by code_simp

lemma exec_setup_py:
  "exec_module env tree initial_state setup_py_ast =
     Inr \<lparr>globals = [(''find_packages'', FindPackagesFn), (''setup'', SetupFn)],
          setup_calls =
            [[(''name'', VStr ''ai-video-editor-agent''),
              (''version'', VStr ''0.1.0''),
              (''author'', VStr ''Hernane Bini''),
              (''description'', VStr ''AI-Powered Video Editor Agent''),
              (''packages'', VList (map VStr (find_packages tree))),
              (''python_requires'', VStr ''>=3.9''),
              (''install_requires'',
               VList [VStr ''opencv-python>=4.8.0'', VStr ''torch>=2.1.0'',
                      VStr ''fastapi>=0.104.0'', VStr ''pytest>=7.4.0''])]]\<rparr>"
  by (simp add: setup_py_ast_def initial_state_def import_name_def eval_kwargs_def)

lemma manifest_run:
  "manifest env tree =
     Inr [[(''name'', VStr ''ai-video-editor-agent''),
           (''version'', VStr ''0.1.0''),
           (''author'', VStr ''Hernane Bini''),
           (''description'', VStr ''AI-Powered Video Editor Agent''),
           (''packages'', VList (map VStr (find_packages tree))),
           (''python_requires'', VStr ''>=3.9''),
           (''install_requires'',
            VList [VStr ''opencv-python>=4.8.0'', VStr ''torch>=2.1.0'',
                   VStr ''fastapi>=0.104.0'', VStr ''pytest>=7.4.0''])]]"
  by (simp add: manifest_def run_source_def parse_setup_py exec_setup_py)

lemma install_requires_eq:
  "install_requires env tree =
     Some [''opencv-python>=4.8.0'', ''torch>=2.1.0'', ''fastapi>=0.104.0'',
           ''pytest>=7.4.0'']"
  by (simp add: install_requires_def setup_arg_def manifest_run)

lemma source_names_setup_py:
  "source_names setup_py =
     Some [''from'', ''setuptools'', ''import'', ''setup'', ''find_packages'',
           ''setup'', ''name'', ''version'', ''author'', ''description'', ''packages'',
           ''find_packages'', ''python_requires'', ''install_requires'']"
  by (simp add: source_names_def tokenize_setup_py)

subsection \<open>A manifest that does depend on the environment\<close>

text \<open>
  Not every module of the fragment runs the same under every environment: the manifest
  that reads \<^verbatim>\<open>PKG_NAME\<close> gives one name under \<open>build_env\<close> and \<^verbatim>\<open>None\<close> under
  \<open>bare_env\<close>.
\<close>

lemma env_reading_build:
  "run_source build_env repo_tree env_reading_setup_py =
     Inr [[(''name'', VStr ''other-name''), (''version'', VStr ''0.1.0'')]]"
  by code_simp

lemma env_reading_bare:
  "run_source bare_env repo_tree env_reading_setup_py =
     Inr [[(''name'', VNone), (''version'', VStr ''0.1.0'')]]"
  by code_simp

lemma env_reading_differs:
  "run_source build_env repo_tree env_reading_setup_py \<noteq>
   run_source bare_env repo_tree env_reading_setup_py"
  by (simp add: env_reading_build env_reading_bare)

subsection \<open>Reading the requirement strings\<close>

lemma parse_opencv:
  "parse_requirement ''opencv-python>=4.8.0'' = Some (''opencv-python'', [(GE, [4, 8, 0])])"
  by code_simp

lemma parse_torch:
  "parse_requirement ''torch>=2.1.0'' = Some (''torch'', [(GE, [2, 1, 0])])"
  by code_simp

lemma parse_fastapi:
  "parse_requirement ''fastapi>=0.104.0'' = Some (''fastapi'', [(GE, [0, 104, 0])])"
  by code_simp

lemma parse_pytest:
  "parse_requirement ''pytest>=7.4.0'' = Some (''pytest'', [(GE, [7, 4, 0])])"
  by code_simp

lemma parse_python_requires: "parse_specifier_set ''>=3.9'' = Some [(GE, [3, 9])]"
  by code_simp

lemma release_less_Nil: "release_less v [] = False"
  by (cases v) simp_all

subsection \<open>Directories without packages\<close>

lemma package_dirs_empty:
  "list_all (\<lambda>p. \<not> looks_like_package (snd p)) entries \<Longrightarrow> package_dirs entries = []"
  by (induction entries) (simp_all add: package_dirs_def)

lemma find_packages_empty: "no_package_dirs tree \<Longrightarrow> find_packages tree = []"
  by (cases tree) (simp_all add: no_package_dirs_def find_packages_def package_dirs_empty)

section \<open>The claims\<close>

text \<open>
  C1. Parsing and running the manifest gives one call of \<^verbatim>\<open>setup\<close>, whose
  \<^verbatim>\<open>name\<close> argument is the string \<^verbatim>\<open>ai-video-editor-agent\<close> and whose
  \<^verbatim>\<open>version\<close> argument is the string \<^verbatim>\<open>0.1.0\<close>, whatever the files around
  the manifest are.
\<close>

theorem manifest_name_version:
  "setup_arg env tree ''name'' = Some (VStr ''ai-video-editor-agent'') \<and>
   setup_arg env tree ''version'' = Some (VStr ''0.1.0'')"
  by (simp add: setup_arg_def manifest_run)

text \<open>
  C2. The \<^verbatim>\<open>install_requires\<close> argument is a list of exactly four strings. Read as
  requirements they name opencv-python (the computer-vision library), torch (the
  machine-learning framework), fastapi (the web API framework) and pytest (the test
  framework), each with the single clause \<^verbatim>\<open>>=\<close> and the versions 4.8.0, 2.1.0,
  0.104.0 and 7.4.0.
\<close>

theorem manifest_dependencies:
  "install_requires env tree =
     Some [''opencv-python>=4.8.0'', ''torch>=2.1.0'', ''fastapi>=0.104.0'',
           ''pytest>=7.4.0''] \<and>
   map_option length (install_requires env tree) = Some 4 \<and>
   map_option (map parse_requirement) (install_requires env tree) =
     Some [Some (''opencv-python'', [(GE, [4, 8, 0])]),
           Some (''torch'', [(GE, [2, 1, 0])]),
           Some (''fastapi'', [(GE, [0, 104, 0])]),
           Some (''pytest'', [(GE, [7, 4, 0])])]"
  by (simp add: install_requires_eq parse_opencv parse_torch parse_fastapi parse_pytest)

text \<open>
  C4. The \<^verbatim>\<open>python_requires\<close> argument is the string \<^verbatim>\<open>>=3.9\<close>. A runtime
  version \<open>major.minor...\<close> meets it exactly when it is 3.9 or newer: the major number is
  above 3, or it is 3 and the minor number is at least 9. A version of one segment
  meets it exactly when that segment is above 3.
\<close>

theorem python_requires_minimum:
  "setup_arg env tree ''python_requires'' = Some (VStr ''>=3.9'') \<and>
   python_requires_allows env tree (major # minor # rest) =
     Some (3 < major \<or> (major = 3 \<and> 9 \<le> minor)) \<and>
   python_requires_allows env tree [major] = Some (3 < major) \<and>
   python_requires_allows env tree [] = Some False"
proof -
  have arg: "setup_arg env tree ''python_requires'' = Some (VStr ''>=3.9'')"
    by (simp add: setup_arg_def manifest_run)
  have allows: "python_requires_allows env tree v = Some (release_le [3, 9] v)" for v
    by (simp add: python_requires_allows_def arg parse_python_requires)
  have two: "release_le [3, 9] (major # minor # rest) =
      (3 < major \<or> (major = 3 \<and> 9 \<le> minor))"
    by (auto simp add: release_le_def release_less_Nil)
  have one: "release_le [3, 9] [major] = (3 < major)"
    by (auto simp add: release_le_def)
  have none: "release_le [3, 9] [] = False"
    by (simp add: release_le_def)
  show ?thesis
    by (simp add: arg allows two one none)
qed

text \<open>
  C5. The \<^verbatim>\<open>author\<close> argument of the call is the string \<^verbatim>\<open>Hernane Bini\<close> and the
  \<^verbatim>\<open>description\<close> argument is the string \<^verbatim>\<open>AI-Powered Video Editor Agent\<close>.
\<close>

theorem manifest_author_description:
  "setup_arg env tree ''author'' = Some (VStr ''Hernane Bini'') \<and>
   setup_arg env tree ''description'' = Some (VStr ''AI-Powered Video Editor Agent'')"
  by (simp add: setup_arg_def manifest_run)

text \<open>
  C6. Every entry of \<^verbatim>\<open>install_requires\<close> reads as a name with exactly one version
  clause, and the operator of that clause is \<^verbatim>\<open>>=\<close>: no entry has an upper bound, an
  exact pin or an exclusion.
\<close>

theorem dependencies_minimum_only:
  assumes "install_requires env tree = Some rs" and "r \<in> set rs"
  shows "\<exists>n v. parse_requirement r = Some (n, [(GE, v)])"
proof -
  from assms(1) have "rs = [''opencv-python>=4.8.0'', ''torch>=2.1.0'', ''fastapi>=0.104.0'',
      ''pytest>=7.4.0'']"
    by (simp add: install_requires_eq)
  with assms(2) consider "r = ''opencv-python>=4.8.0''" | "r = ''torch>=2.1.0''"
    | "r = ''fastapi>=0.104.0''" | "r = ''pytest>=7.4.0''"
    by auto
  then show ?thesis
  proof cases
    case 1
    then show ?thesis by (simp add: parse_opencv)
  next
    case 2
    then show ?thesis by (simp add: parse_torch)
  next
    case 3
    then show ?thesis by (simp add: parse_fastapi)
  next
    case 4
    then show ?thesis by (simp add: parse_pytest)
  qed
qed

theorem dependencies_minimum_only_witness:
  "install_requires bare_env repo_tree =
     Some [''opencv-python>=4.8.0'', ''torch>=2.1.0'', ''fastapi>=0.104.0'',
           ''pytest>=7.4.0''] \<and>
   ''torch>=2.1.0'' \<in> set [''opencv-python>=4.8.0'', ''torch>=2.1.0'', ''fastapi>=0.104.0'',
           ''pytest>=7.4.0''] \<and>
   (\<exists>n v. parse_requirement ''torch>=2.1.0'' = Some (n, [(GE, v)]))"
proof -
  have a: "install_requires bare_env repo_tree =
     Some [''opencv-python>=4.8.0'', ''torch>=2.1.0'', ''fastapi>=0.104.0'',
           ''pytest>=7.4.0'']"
    by (rule install_requires_eq)
  have b: "''torch>=2.1.0'' \<in> set [''opencv-python>=4.8.0'', ''torch>=2.1.0'',
      ''fastapi>=0.104.0'', ''pytest>=7.4.0'']"
    by simp
  from dependencies_minimum_only [OF a b] a b show ?thesis
    by blast
qed

text \<open>
  C7. The source file has exactly two lines. It parses to two statements, the import
  from setuptools and one expression statement that calls \<^verbatim>\<open>setup\<close> with keyword
  arguments only; the only reserved words in it are \<^verbatim>\<open>from\<close> and \<^verbatim>\<open>import\<close>, so
  it defines no function and no class; and running it does nothing but make that one
  call.
\<close>

theorem setup_py_two_line_declaration:
  "splitlines setup_py = [setup_py_line1, setup_py_line2] \<and>
   length (splitlines setup_py) = 2 \<and>
   (\<exists>kws. parse_module setup_py =
      Some [ImportFrom ''setuptools'' [''setup'', ''find_packages''],
            ExprStmt (Call ''setup'' [] kws)]) \<and>
   map_option (filter (\<lambda>n. n \<in> set reserved_words)) (source_names setup_py) =
     Some [''from'', ''import''] \<and>
   (\<exists>a. manifest env tree = Inr [a])"
proof -
  have lines: "splitlines setup_py = [setup_py_line1, setup_py_line2]"
    by code_simp
  have kw: "map_option (filter (\<lambda>n. n \<in> set reserved_words)) (source_names setup_py) =
     Some [''from'', ''import'']"
    by (simp add: source_names_setup_py reserved_words_def)
  show ?thesis
    by (simp add: lines kw parse_setup_py setup_py_ast_def manifest_run)
qed

text \<open>
  C8. The call of \<^verbatim>\<open>setup\<close> passes the seven keywords \<^verbatim>\<open>name\<close>, \<^verbatim>\<open>version\<close>,
  \<^verbatim>\<open>author\<close>, \<^verbatim>\<open>description\<close>, \<^verbatim>\<open>packages\<close>, \<^verbatim>\<open>python_requires\<close> and
  \<^verbatim>\<open>install_requires\<close> and no other: no \<^verbatim>\<open>entry_points\<close>, \<^verbatim>\<open>scripts\<close> or
  \<^verbatim>\<open>console_scripts\<close>. The names that occur in the source are those of the import
  and of the call; none of them is \<^verbatim>\<open>os\<close>, \<^verbatim>\<open>sys\<close>, \<^verbatim>\<open>environ\<close>,
  \<^verbatim>\<open>getenv\<close>, \<^verbatim>\<open>argv\<close>, \<^verbatim>\<open>argparse\<close> or \<^verbatim>\<open>exit\<close>, so the source reads
  no environment variable and defines no command line.
\<close>

theorem no_cli_or_environment:
  "setup_arg env tree ''entry_points'' = None \<and>
   setup_arg env tree ''scripts'' = None \<and>
   setup_arg env tree ''console_scripts'' = None \<and>
   setup_keywords env tree =
     Some [''name'', ''version'', ''author'', ''description'', ''packages'',
           ''python_requires'', ''install_requires''] \<and>
   source_names setup_py =
     Some [''from'', ''setuptools'', ''import'', ''setup'', ''find_packages'',
           ''setup'', ''name'', ''version'', ''author'', ''description'', ''packages'',
           ''find_packages'', ''python_requires'', ''install_requires''] \<and>
   map_option
     (filter (\<lambda>n. n \<in> set [''os'', ''sys'', ''environ'', ''getenv'', ''argv'', ''argparse'',
                              ''exit'']))
     (source_names setup_py) = Some []"
  by (simp add: setup_arg_def setup_keywords_def manifest_run source_names_setup_py)

text \<open>
  C9. The \<^verbatim>\<open>packages\<close> argument is the list that \<^verbatim>\<open>find_packages()\<close> returns for
  the checkout. In a checkout where no entry beside \<^verbatim>\<open>setup.py\<close> is a directory
  holding an \<^verbatim>\<open>__init__.py\<close>, that list is empty: the distribution has no
  importable package. The repository itself is such a checkout.
\<close>

theorem no_packages_found:
  assumes "no_package_dirs tree"
  shows "setup_arg env tree ''packages'' = Some (VList (map VStr (find_packages tree))) \<and>
         find_packages tree = [] \<and>
         setup_arg env tree ''packages'' = Some (VList [])"
  using find_packages_empty [OF assms] by (simp add: setup_arg_def manifest_run)

theorem no_packages_found_witness:
  "no_package_dirs repo_tree \<and>
   find_packages repo_tree = [] \<and>
   setup_arg bare_env repo_tree ''packages'' = Some (VList [])"
proof -
  have h: "no_package_dirs repo_tree"
    by (simp add: no_package_dirs_def repo_tree_def looks_like_package_def)
  from no_packages_found [OF h] h show ?thesis
    by simp
qed

text \<open>
  C10. Two runs of the manifest over the same checkout give the same result, whatever
  the environment variables, the working directory and the time of either run; that
  result is one call of \<^verbatim>\<open>setup\<close> with the seven keywords of the source. The name,
  version, author, description, \<^verbatim>\<open>python_requires\<close> and \<^verbatim>\<open>install_requires\<close>
  have a value, the same in any two runs even over different checkouts; and two runs
  over checkouts with the same packages give the same metadata altogether.
\<close>

theorem manifest_deterministic:
  "manifest e1 tree = manifest e2 tree \<and>
   (\<exists>a. manifest e1 tree = Inr [a] \<and>
        map fst a = [''name'', ''version'', ''author'', ''description'', ''packages'',
                     ''python_requires'', ''install_requires'']) \<and>
   (\<exists>v. setup_arg e1 t1 ''name'' = Some v \<and> setup_arg e2 t2 ''name'' = Some v) \<and>
   (\<exists>v. setup_arg e1 t1 ''version'' = Some v \<and> setup_arg e2 t2 ''version'' = Some v) \<and>
   (\<exists>v. setup_arg e1 t1 ''author'' = Some v \<and> setup_arg e2 t2 ''author'' = Some v) \<and>
   (\<exists>v. setup_arg e1 t1 ''description'' = Some v \<and>
        setup_arg e2 t2 ''description'' = Some v) \<and>
   (\<exists>v. setup_arg e1 t1 ''python_requires'' = Some v \<and>
        setup_arg e2 t2 ''python_requires'' = Some v) \<and>
   (\<exists>v. setup_arg e1 t1 ''install_requires'' = Some v \<and>
        setup_arg e2 t2 ''install_requires'' = Some v) \<and>
   (find_packages t1 = find_packages t2 \<longrightarrow> manifest e1 t1 = manifest e2 t2)"
  by (simp add: setup_arg_def manifest_run)

theorem manifest_deterministic_witness:
  "find_packages repo_tree =
     find_packages (Dir [(''README.md'', File), (''setup.py'', File)]) \<and>
   manifest bare_env repo_tree =
     manifest build_env (Dir [(''README.md'', File), (''setup.py'', File)]) \<and>
   manifest bare_env repo_tree = manifest build_env repo_tree \<and>
   setup_arg bare_env repo_tree ''install_requires'' =
     Some (VList [VStr ''opencv-python>=4.8.0'', VStr ''torch>=2.1.0'',
                  VStr ''fastapi>=0.104.0'', VStr ''pytest>=7.4.0'']) \<and>
   setup_arg build_env (Dir [(''README.md'', File), (''setup.py'', File)])
     ''install_requires'' = setup_arg bare_env repo_tree ''install_requires''"
proof -
  have h: "find_packages repo_tree =
      find_packages (Dir [(''README.md'', File), (''setup.py'', File)])"
    by (simp add: find_packages_def repo_tree_def package_dirs_def looks_like_package_def)
  have v: "setup_arg bare_env repo_tree ''install_requires'' =
     Some (VList [VStr ''opencv-python>=4.8.0'', VStr ''torch>=2.1.0'',
                  VStr ''fastapi>=0.104.0'', VStr ''pytest>=7.4.0''])"
    by (simp add: setup_arg_def manifest_run)
  from manifest_deterministic
    [of bare_env repo_tree build_env repo_tree
        "Dir [(''README.md'', File), (''setup.py'', File)]"] h v
  show ?thesis
    by auto
qed

end
